theory Spec2Isabelle
  imports Main
begin

section \<open>The template store listing of faas-cli (commands/template_store_list.go)\<close>

text \<open>
  Go strings are byte sequences: they are modelled as \<^typ>\<open>string\<close>, a list of 8-bit
  characters. The two control characters the source writes are named here.
\<close>

abbreviation NL :: char where "NL \<equiv> CHR 0x0A"
abbreviation TAB :: char where "TAB \<equiv> CHR 0x09"

subsection \<open>Errors\<close>

text \<open>
  Every error the file creates is made by \<open>fmt.Errorf\<close>: a value whose only content is its
  message. \<open>Error\<close> is Go's \<open>err.Error()\<close>.
\<close>

datatype error = Errorf string

fun Error :: "error \<Rightarrow> string" where
  "Error (Errorf msg) = msg"

subsection \<open>Constants and the record type\<close>

definition DefaultTemplatesStore :: string where
  "DefaultTemplatesStore = ''https://raw.githubusercontent.com/openfaas/store/master/templates.json''"

definition allPlatforms :: string where
  "allPlatforms = ''allPlatforms''"

definition availablePlatforms :: "string list" where
  "availablePlatforms = [''armhf'', ''x86_64'', ''arm64'']"

record TemplateInfo =
  TemplateName :: string
  Platform :: string
  Language :: string
  Source :: string
  Description :: string
  Repository :: string
  Official :: string

subsection \<open>checkExistingPlatforms\<close>

text \<open>
  The \<open>for lastPlatform, availablePlatform := range availablePlatforms\<close> loop: \<open>i\<close> is the
  index \<open>lastPlatform\<close>, the list is what is left of the array, \<open>err\<close> is the variable
  \<open>err\<close> (\<open>None\<close> is Go's \<open>nil\<close>). A match leaves the loop (\<open>break\<close>); otherwise the
  error is assigned when the index is \<open>len(availablePlatforms)-1\<close>.
\<close>

fun checkExistingPlatforms_loop :: "int \<Rightarrow> string list \<Rightarrow> string \<Rightarrow> error option \<Rightarrow> error option" where
  "checkExistingPlatforms_loop i [] platform err = err"
| "checkExistingPlatforms_loop i (availablePlatform # rest) platform err =
     (if availablePlatform = platform then err
      else if int (length availablePlatforms) - 1 = i
        then checkExistingPlatforms_loop (i + 1) rest platform
          (Some (Errorf ([NL] @ ''Currently supported platforms are: armhf, arm64 and x86_64. Unable to find: ''
             @ platform @ [NL, NL])))
      else checkExistingPlatforms_loop (i + 1) rest platform err)"

definition checkExistingPlatforms :: "string \<Rightarrow> error option" where
  "checkExistingPlatforms platform = checkExistingPlatforms_loop 0 availablePlatforms platform None"

subsection \<open>The tabwriter\<close>

text \<open>
  \<open>text/tabwriter\<close> is Go's library, not this repository's code. A \<open>Writer\<close> is modelled
  by the parameters \<open>NewWriter\<close> received and the bytes written to it so far. What
  \<open>Flush\<close> hands to the underlying buffer is the library's rendering of that state; the
  rendering is a parameter \<open>render\<close> of every function that flushes, so that the theorems
  about this file's code hold for whatever the library does. \<open>tabwriter_render\<close> below is
  the rendering the library documents, for the only configuration this file uses.
\<close>

record Writer =
  minwidth :: int
  tabwidth :: int
  padding :: int
  padchar :: char
  flags :: nat
  text_written :: string

definition NewWriter :: "int \<Rightarrow> int \<Rightarrow> int \<Rightarrow> char \<Rightarrow> nat \<Rightarrow> Writer" where
  "NewWriter mw tw pd pc fl =
     \<lparr>minwidth = mw, tabwidth = tw, padding = pd, padchar = pc, flags = fl, text_written = []\<rparr>"

definition Fprint :: "Writer \<Rightarrow> string \<Rightarrow> Writer" where
  "Fprint w s = w\<lparr>text_written := text_written w @ s\<rparr>"

definition Fprintln :: "Writer \<Rightarrow> Writer" where
  "Fprintln w = Fprint w [NL]"

subsubsection \<open>UTF-8 sequences, as \<open>unicode/utf8\<close> delimits them\<close>

text \<open>
  For a first byte that starts a multi-byte sequence: the length of the sequence and the
  range its second byte must lie in (the library's tables \<open>first\<close> and \<open>acceptRanges\<close>).
\<close>

definition acceptRange :: "nat \<Rightarrow> (nat \<times> nat \<times> nat) option" where
  "acceptRange c =
     (if 0xC2 \<le> c \<and> c \<le> 0xDF then Some (2, 0x80, 0xBF)
      else if c = 0xE0 then Some (3, 0xA0, 0xBF)
      else if 0xE1 \<le> c \<and> c \<le> 0xEC then Some (3, 0x80, 0xBF)
      else if c = 0xED then Some (3, 0x80, 0x9F)
      else if 0xEE \<le> c \<and> c \<le> 0xEF then Some (3, 0x80, 0xBF)
      else if c = 0xF0 then Some (4, 0x90, 0xBF)
      else if 0xF1 \<le> c \<and> c \<le> 0xF3 then Some (4, 0x80, 0xBF)
      else if c = 0xF4 then Some (4, 0x80, 0x8F)
      else None)"

definition continuation :: "char \<Rightarrow> bool" where
  "continuation c = (0x80 \<le> (of_char c :: nat) \<and> (of_char c :: nat) \<le> 0xBF)"

text \<open>
  The number of bytes \<open>utf8.DecodeRune\<close> consumes at the head of \<open>p\<close>: the length of a
  well-formed sequence, and 1 for an ASCII byte and for a byte that starts no well-formed
  sequence.
\<close>

fun rune_size :: "string \<Rightarrow> nat" where
  "rune_size [] = 0"
| "rune_size (c # p) =
     (case acceptRange (of_char c) of
        None \<Rightarrow> 1
      | Some (sz, lo, hi) \<Rightarrow>
          if length p + 1 < sz then 1
          else if of_char (p ! 0) < lo \<or> hi < of_char (p ! 0) then 1
          else if sz = 2 then 2
          else if \<not> continuation (p ! 1) then 1
          else if sz = 3 then 3
          else if \<not> continuation (p ! 2) then 1
          else 4)"

lemma rune_size_pos: "p \<noteq> [] \<Longrightarrow> 0 < rune_size p"
  by (cases p) (auto simp: acceptRange_def split: option.splits)

function RuneCount :: "string \<Rightarrow> int" where
  "RuneCount p = (if p = [] then 0 else 1 + RuneCount (drop (rune_size p) p))"
  by pat_completeness auto
termination
  by (relation "measure length") (auto simp: rune_size_pos)

declare RuneCount.simps [simp del]

subsubsection \<open>The elastic tab stops of \<open>text/tabwriter\<close>\<close>

text \<open>
  The library's algorithm for \<open>flags = 0\<close> and a pad character other than the tab. A cell
  is its bytes and its width in runes. The buffer holds the finished lines, the line in
  progress, the cell in progress (\<open>pending\<close> is the part of it whose width is not counted
  yet), whether an escaped segment (bracketed by the byte 0xFF) is open, and what has been
  flushed to the underlying writer.
\<close>

type_synonym cell = "string \<times> int"

record tw_buffer =
  lines_done :: "cell list list"
  cur_line :: "cell list"
  cell_text :: string
  cell_width :: int
  pending :: string
  in_escape :: bool
  flushed :: string

definition writePadding :: "Writer \<Rightarrow> int \<Rightarrow> int \<Rightarrow> string" where
  "writePadding w textw cellw = replicate (nat (cellw - textw)) (padchar w)"

text \<open>One line of \<open>writeLines\<close>: a cell is padded when its column has a width.\<close>

fun write_cells :: "Writer \<Rightarrow> int list \<Rightarrow> nat \<Rightarrow> cell list \<Rightarrow> string" where
  "write_cells w widths j [] = []"
| "write_cells w widths j ((text, width) # cs) =
     text @ (if j < length widths then writePadding w width (widths ! j) else [])
       @ write_cells w widths (Suc j) cs"

text \<open>A line has a cell in a column when the cell is tab-terminated: not the line's last.\<close>

definition has_cell :: "nat \<Rightarrow> cell list \<Rightarrow> bool" where
  "has_cell column line = (\<not> int column \<ge> int (length line) - 1)"

definition block_width :: "Writer \<Rightarrow> nat \<Rightarrow> cell list list \<Rightarrow> int" where
  "block_width w column block =
     fold (\<lambda>line width. if snd (line ! column) + padding w > width
                         then snd (line ! column) + padding w else width)
       block (minwidth w)"

text \<open>
  \<open>format\<close>: the column is \<open>length widths\<close>. Lines with no cell in the column are
  written; a run of consecutive lines with a cell in it is a column block, formatted with
  the block's width pushed. The result is the rendered lines, in order.
\<close>

function format :: "Writer \<Rightarrow> int list \<Rightarrow> cell list list \<Rightarrow> string list" where
  "format w widths [] = []"
| "format w widths (line # rest) =
     (if \<not> has_cell (length widths) line
      then write_cells w widths 0 line # format w widths rest
      else format w (widths @ [block_width w (length widths)
                       (takeWhile (has_cell (length widths)) (line # rest))])
             (takeWhile (has_cell (length widths)) (line # rest))
           @ format w widths (dropWhile (has_cell (length widths)) (line # rest)))"
  by pat_completeness auto

definition format_measure :: "Writer \<times> int list \<times> cell list list \<Rightarrow> nat" where
  "format_measure = (\<lambda>(w, widths, ls). sum_list (map (\<lambda>l. Suc (length l - length widths)) ls))"

lemma format_measure_split:
  "sum_list (map f ls) = sum_list (map f (takeWhile P ls)) + (sum_list (map f (dropWhile P ls)) :: nat)"
  by (induction ls) auto

lemma format_measure_block:
  "\<forall>l \<in> set ls. has_cell n l \<Longrightarrow> ls \<noteq> [] \<Longrightarrow>
     sum_list (map (\<lambda>l. Suc (length l - Suc n)) ls) < sum_list (map (\<lambda>l. Suc (length l - n)) ls)"
proof (induction ls)
  case Nil
  then show ?case by simp
next
  case (Cons l ls)
  have "Suc (length l - Suc n) < Suc (length l - n)"
    using Cons.prems(1) by (auto simp: has_cell_def)
  moreover have "sum_list (map (\<lambda>l. Suc (length l - Suc n)) ls) \<le> sum_list (map (\<lambda>l. Suc (length l - n)) ls)"
    by (rule sum_list_mono) auto
  ultimately show ?case by simp
qed

termination format
proof (relation "measure format_measure", goal_cases)
  case 1
  then show ?case by simp
next
  case (2 w widths line rest)
  then show ?case by (simp add: format_measure_def)
next
  case (3 w widths line rest)
  let ?P = "has_cell (length widths)"
  let ?ls = "line # rest"
  have ne: "takeWhile ?P ?ls \<noteq> []" using 3 by simp
  have all: "\<forall>l \<in> set (takeWhile ?P ?ls). ?P l" by (meson set_takeWhileD)
  have "sum_list (map (\<lambda>l. Suc (length l - Suc (length widths))) (takeWhile ?P ?ls))
        < sum_list (map (\<lambda>l. Suc (length l - length widths)) (takeWhile ?P ?ls))"
    by (rule format_measure_block [OF all ne])
  also have "\<dots> \<le> sum_list (map (\<lambda>l. Suc (length l - length widths)) ?ls)"
    by (subst (2) format_measure_split [where P = ?P]) simp
  finally show ?case by (simp add: format_measure_def)
next
  case (4 w widths line rest)
  let ?P = "has_cell (length widths)"
  have "sum_list (map (\<lambda>l. Suc (length l - length widths)) (dropWhile ?P rest))
        \<le> sum_list (map (\<lambda>l. Suc (length l - length widths)) rest)"
    by (subst (2) format_measure_split [where P = ?P]) simp
  then show ?case using 4 by (simp add: format_measure_def)
qed

declare format.simps [simp del]

text \<open>Every buffered line but the last is followed by a newline.\<close>

fun join_lines :: "string list \<Rightarrow> string" where
  "join_lines [] = []"
| "join_lines [l] = l"
| "join_lines (l # ls) = l @ [NL] @ join_lines ls"

definition updateWidth :: "tw_buffer \<Rightarrow> tw_buffer" where
  "updateWidth b = b\<lparr>cell_width := cell_width b + RuneCount (pending b), pending := []\<rparr>"

definition append_byte :: "tw_buffer \<Rightarrow> char \<Rightarrow> tw_buffer" where
  "append_byte b ch = b\<lparr>cell_text := cell_text b @ [ch], pending := pending b @ [ch]\<rparr>"

definition endEscape :: "tw_buffer \<Rightarrow> tw_buffer" where
  "endEscape b = (let b = updateWidth b in b\<lparr>cell_width := cell_width b - 2, in_escape := False\<rparr>)"

definition terminateCell :: "tw_buffer \<Rightarrow> tw_buffer" where
  "terminateCell b =
     b\<lparr>cur_line := cur_line b @ [(cell_text b, cell_width b)], cell_text := [], cell_width := 0\<rparr>"

definition addLine :: "tw_buffer \<Rightarrow> tw_buffer" where
  "addLine b = b\<lparr>lines_done := lines_done b @ [cur_line b], cur_line := []\<rparr>"

definition reset :: "string \<Rightarrow> tw_buffer" where
  "reset out = \<lparr>lines_done = [], cur_line = [], cell_text = [], cell_width = 0, pending = [],
     in_escape = False, flushed = out\<rparr>"

definition flushNoDefers :: "Writer \<Rightarrow> tw_buffer \<Rightarrow> tw_buffer" where
  "flushNoDefers w b =
     (let b = (if cell_text b \<noteq> [] then terminateCell (if in_escape b then endEscape b else b) else b)
      in reset (flushed b @ join_lines (format w [] (lines_done b @ [cur_line b]))))"

definition Escape :: char where
  "Escape = CHR 0xFF"

text \<open>
  \<open>Write\<close>, one byte at a time. A tab or a vertical tab ends a cell; a newline or a form
  feed ends a cell and the line, and flushes when it is a form feed or when the line has a
  single cell.
\<close>

definition write_byte :: "Writer \<Rightarrow> tw_buffer \<Rightarrow> char \<Rightarrow> tw_buffer" where
  "write_byte w b ch =
     (if \<not> in_escape b then
        if ch = TAB \<or> ch = CHR 0x0B \<or> ch = NL \<or> ch = CHR 0x0C then
          let b = terminateCell (updateWidth b); ncells = length (cur_line b) in
          if ch = NL \<or> ch = CHR 0x0C then
            let b = addLine b in
            if ch = CHR 0x0C \<or> ncells = 1 then flushNoDefers w b else b
          else b
        else if ch = Escape then (append_byte (updateWidth b) ch)\<lparr>in_escape := True\<rparr>
        else append_byte b ch
      else if ch = Escape then endEscape (append_byte b ch)
      else append_byte b ch)"

definition tabwriter_render :: "Writer \<Rightarrow> string" where
  "tabwriter_render w =
     flushed (flushNoDefers w (fold (\<lambda>ch b. write_byte w b ch) (text_written w) (reset [])))"

subsection \<open>The two table layouts\<close>

text \<open>One \<open>Fprintf\<close> of a row: \<open>%s\<close> copies the field's bytes.\<close>

definition basic_row :: "TemplateInfo \<Rightarrow> string" where
  "basic_row template =
     TemplateName template @ [TAB] @ Source template @ [TAB] @ Description template @ [NL]"

definition verbose_row :: "TemplateInfo \<Rightarrow> string" where
  "verbose_row template =
     TemplateName template @ [TAB] @ Language template @ [TAB] @ Platform template @ [TAB]
       @ Source template @ [TAB] @ Description template @ [NL]"

definition basic_header :: string where
  "basic_header = ''NAME'' @ [TAB] @ ''SOURCE'' @ [TAB] @ ''DESCRIPTION'' @ [NL]"

definition verbose_header :: string where
  "verbose_header = ''NAME'' @ [TAB] @ ''LANGUAGE'' @ [TAB] @ ''PLATFORM'' @ [TAB] @ ''SOURCE''
     @ [TAB] @ ''DESCRIPTION'' @ [NL]"

text \<open>The four \<open>for _, template := range templates\<close> loops, the writer threaded through.\<close>

fun basic_loop_filtered :: "Writer \<Rightarrow> TemplateInfo list \<Rightarrow> string \<Rightarrow> Writer" where
  "basic_loop_filtered w [] platform = w"
| "basic_loop_filtered w (template # rest) platform =
     (if Platform template = platform
      then basic_loop_filtered (Fprint w (basic_row template)) rest platform
      else basic_loop_filtered w rest platform)"

fun basic_loop_all :: "Writer \<Rightarrow> TemplateInfo list \<Rightarrow> Writer" where
  "basic_loop_all w [] = w"
| "basic_loop_all w (template # rest) = basic_loop_all (Fprint w (basic_row template)) rest"

fun verbose_loop_filtered :: "Writer \<Rightarrow> TemplateInfo list \<Rightarrow> string \<Rightarrow> Writer" where
  "verbose_loop_filtered w [] platform = w"
| "verbose_loop_filtered w (template # rest) platform =
     (if Platform template = platform
      then verbose_loop_filtered (Fprint w (verbose_row template)) rest platform
      else verbose_loop_filtered w rest platform)"

fun verbose_loop_all :: "Writer \<Rightarrow> TemplateInfo list \<Rightarrow> Writer" where
  "verbose_loop_all w [] = w"
| "verbose_loop_all w (template # rest) = verbose_loop_all (Fprint w (verbose_row template)) rest"

definition formatBasicOutput :: "Writer \<Rightarrow> TemplateInfo list \<Rightarrow> string \<Rightarrow> Writer" where
  "formatBasicOutput lineWriter templates platform =
     (if platform \<noteq> allPlatforms
      then basic_loop_filtered (Fprint lineWriter basic_header) templates platform
      else basic_loop_all (Fprint lineWriter basic_header) templates)"

definition formatVerboseOutput :: "Writer \<Rightarrow> TemplateInfo list \<Rightarrow> string \<Rightarrow> Writer" where
  "formatVerboseOutput lineWriter templates platform =
     (if platform \<noteq> allPlatforms
      then verbose_loop_filtered (Fprint lineWriter verbose_header) templates platform
      else verbose_loop_all (Fprint lineWriter verbose_header) templates)"

subsection \<open>formatTemplatesOutput\<close>

text \<open>
  \<open>render\<close> is what \<open>lineWriter.Flush()\<close> leaves in the (initially empty) buffer
  \<open>buff\<close>, so it is the value of \<open>buff.String()\<close>.
\<close>

definition formatTemplatesOutput ::
  "(Writer \<Rightarrow> string) \<Rightarrow> TemplateInfo list \<Rightarrow> bool \<Rightarrow> string \<Rightarrow> string" where
  "formatTemplatesOutput render templates verbose platform =
     (case (if platform \<noteq> allPlatforms then checkExistingPlatforms platform else None) of
        Some err \<Rightarrow> Error err
      | None \<Rightarrow>
          (let lineWriter = NewWriter 0 0 1 CHR '' '' 0;
               lineWriter = Fprintln lineWriter;
               lineWriter = (if verbose then formatVerboseOutput lineWriter templates platform
                             else formatBasicOutput lineWriter templates platform);
               lineWriter = Fprintln lineWriter
           in render lineWriter))"

section \<open>The table of the specification\<close>

text \<open>
  The specification's words for the filter: with the sentinel no filtering occurs,
  otherwise only the records whose platform equals the requested value survive, in their
  original order.
\<close>

definition spec_surviving :: "string \<Rightarrow> TemplateInfo list \<Rightarrow> TemplateInfo list" where
  "spec_surviving platform records =
     (if platform = allPlatforms then records else filter (\<lambda>r. Platform r = platform) records)"

text \<open>
  The table of the specification: the header of the mode, then one line of cells per
  record.
\<close>

definition table_cells :: "bool \<Rightarrow> TemplateInfo list \<Rightarrow> string list list" where
  "table_cells verbose records =
     (if verbose
      then [''NAME'', ''LANGUAGE'', ''PLATFORM'', ''SOURCE'', ''DESCRIPTION'']
           # map (\<lambda>r. [TemplateName r, Language r, Platform r, Source r, Description r]) records
      else [''NAME'', ''SOURCE'', ''DESCRIPTION'']
           # map (\<lambda>r. [TemplateName r, Source r, Description r]) records)"

text \<open>
  A cell is plain when it holds none of the bytes the tabwriter gives a meaning to: the
  tab and the vertical tab (they end a cell), the line feed and the form feed (they end a
  line), and 0xFF (it opens an escaped segment).
\<close>

definition plain :: "string \<Rightarrow> bool" where
  "plain s = (\<forall>c \<in> set s. c \<noteq> TAB \<and> c \<noteq> CHR 0x0B \<and> c \<noteq> NL \<and> c \<noteq> CHR 0x0C \<and> c \<noteq> CHR 0xFF)"

text \<open>
  The specification's alignment: a column is one space wider than its widest cell, the
  width counted in runes over all the lines of the table, the header included; every cell
  but the last of a line is followed by spaces up to its column's width.
\<close>

definition column_width :: "string list list \<Rightarrow> nat \<Rightarrow> int" where
  "column_width table j = 1 + Max (set (map (\<lambda>row. RuneCount (row ! j)) table))"

fun aligned_line :: "string list list \<Rightarrow> nat \<Rightarrow> string list \<Rightarrow> string" where
  "aligned_line table j [] = []"
| "aligned_line table j [c] = c"
| "aligned_line table j (c # cs) =
     c @ replicate (nat (column_width table j - RuneCount c)) CHR '' '' @ aligned_line table (Suc j) cs"

text \<open>Records to evaluate the formatter on.\<close>

definition example_records :: "TemplateInfo list" where
  "example_records =
     [\<lparr>TemplateName = ''go'', Platform = ''x86_64'', Language = ''Go'', Source = ''openfaas'',
        Description = ''Go template'', Repository = ''https://github.com/openfaas/templates'',
        Official = ''true''\<rparr>,
      \<lparr>TemplateName = ''node-arm64'', Platform = ''arm64'', Language = ''NodeJS'',
        Source = ''openfaas'', Description = ''Node template'',
        Repository = ''https://github.com/openfaas/templates'', Official = ''true''\<rparr>,
      \<lparr>TemplateName = ''rust'', Platform = ''x86_64'', Language = ''Rust'', Source = ''community'',
        Description = ''Rust template'', Repository = ''https://github.com/openfaas-incubator/rust'',
        Official = ''false''\<rparr>]"

definition accented_records :: "TemplateInfo list" where
  "accented_records =
     [\<lparr>TemplateName = ''python3-flask'', Platform = ''x86_64'', Language = ''Python'',
        Source = ''openfaas/templates'', Description = ''Flask template'', Repository = [],
        Official = ''true''\<rparr>,
      \<lparr>TemplateName = ''caf'' @ [CHR 0xC3, CHR 0xA9], Platform = ''armhf'', Language = ''Java'',
        Source = ''community'', Description = [], Repository = [], Official = ''false''\<rparr>]"

section \<open>Platform validation\<close>

lemma checkExistingPlatforms_cases:
  "checkExistingPlatforms platform =
     (if platform = ''armhf'' \<or> platform = ''x86_64'' \<or> platform = ''arm64'' then None
      else Some (Errorf ([NL] @ ''Currently supported platforms are: armhf, arm64 and x86_64. Unable to find: ''
             @ platform @ [NL, NL])))"
  by (auto simp: checkExistingPlatforms_def availablePlatforms_def)

text \<open>
  Claim C10. \<open>checkExistingPlatforms\<close> returns no error exactly for the three members of
  \<open>availablePlatforms\<close>: although the loop assigns the error only at the last index, a
  match at any index, the last one included, leaves the loop before the assignment, and
  every other string, the empty one included, gets the unsupported-platform error.
\<close>

theorem checkExistingPlatforms_iff:
  "checkExistingPlatforms platform =
     (if platform \<in> {''armhf'', ''x86_64'', ''arm64''} then None
      else Some (Errorf ([NL] @ ''Currently supported platforms are: armhf, arm64 and x86_64. Unable to find: ''
             @ platform @ [NL, NL])))"
  by (simp add: checkExistingPlatforms_cases)

theorem checkExistingPlatforms_iff_witness:
  "checkExistingPlatforms ''arm64'' = None \<and> checkExistingPlatforms ''armhf'' = None
   \<and> checkExistingPlatforms ''x86_64'' = None
   \<and> checkExistingPlatforms [] = Some (Errorf ([NL] @
        ''Currently supported platforms are: armhf, arm64 and x86_64. Unable to find: '' @ [NL, NL]))"
  using checkExistingPlatforms_iff [of "''arm64''"] checkExistingPlatforms_iff [of "''armhf''"]
    checkExistingPlatforms_iff [of "''x86_64''"] checkExistingPlatforms_iff [of "[]"]
  by simp

section \<open>The formatter\<close>

lemma Fprint_Fprint: "Fprint (Fprint w a) b = Fprint w (a @ b)"
  by (simp add: Fprint_def)

lemma Fprint_Nil: "Fprint w [] = w"
  by (simp add: Fprint_def)

lemma basic_loop_filtered_eq:
  "basic_loop_filtered w templates platform =
     Fprint w (concat (map basic_row (filter (\<lambda>t. Platform t = platform) templates)))"
  by (induction templates arbitrary: w) (simp_all add: Fprint_Nil Fprint_Fprint)

lemma basic_loop_all_eq:
  "basic_loop_all w templates = Fprint w (concat (map basic_row templates))"
  by (induction templates arbitrary: w) (simp_all add: Fprint_Nil Fprint_Fprint)

lemma verbose_loop_filtered_eq:
  "verbose_loop_filtered w templates platform =
     Fprint w (concat (map verbose_row (filter (\<lambda>t. Platform t = platform) templates)))"
  by (induction templates arbitrary: w) (simp_all add: Fprint_Nil Fprint_Fprint)

lemma verbose_loop_all_eq:
  "verbose_loop_all w templates = Fprint w (concat (map verbose_row templates))"
  by (induction templates arbitrary: w) (simp_all add: Fprint_Nil Fprint_Fprint)

text \<open>What the formatter has written to the tabwriter when it flushes.\<close>

lemma formatTemplatesOutput_valid:
  assumes "platform = allPlatforms \<or> checkExistingPlatforms platform = None"
  shows "formatTemplatesOutput render templates verbose platform =
     render \<lparr>minwidth = 0, tabwidth = 0, padding = 1, padchar = CHR '' '', flags = 0,
       text_written = [NL] @ (if verbose then verbose_header else basic_header)
         @ concat (map (if verbose then verbose_row else basic_row)
             (if platform = allPlatforms then templates
              else filter (\<lambda>t. Platform t = platform) templates))
         @ [NL]\<rparr>"
  using assms
  by (auto simp: formatTemplatesOutput_def formatBasicOutput_def formatVerboseOutput_def
      basic_loop_filtered_eq basic_loop_all_eq verbose_loop_filtered_eq verbose_loop_all_eq
      NewWriter_def Fprintln_def Fprint_def)

lemma formatTemplatesOutput_invalid:
  assumes "platform \<noteq> allPlatforms" and "checkExistingPlatforms platform = Some err"
  shows "formatTemplatesOutput render templates verbose platform = Error err"
  using assms by (simp add: formatTemplatesOutput_def)

lemma allPlatforms_not_available: "allPlatforms \<notin> {''armhf'', ''x86_64'', ''arm64''}"
  by (simp add: allPlatforms_def)

text \<open>
  Claim C2, as amended. For every list of records, the formatter called in basic mode with
  the unsupported platform \<open>mips\<close> returns, as its whole output and with no table rows,
  the message of \<open>checkExistingPlatforms\<close>: a line feed, then \<open>Currently supported
  platforms are: armhf, arm64 and x86_64. Unable to find: mips\<close>, then two line feeds. It
  is the returned string; no error is raised.
\<close>

theorem formatTemplatesOutput_mips:
  "formatTemplatesOutput render records False ''mips'' =
     [NL] @ ''Currently supported platforms are: armhf, arm64 and x86_64. Unable to find: mips''
       @ [NL, NL]"
  by (simp add: formatTemplatesOutput_def checkExistingPlatforms_cases allPlatforms_def)

theorem formatTemplatesOutput_mips_witness:
  "formatTemplatesOutput tabwriter_render example_records False ''mips'' =
     [NL] @ ''Currently supported platforms are: armhf, arm64 and x86_64. Unable to find: mips''
       @ [NL, NL]"
  using formatTemplatesOutput_mips [of tabwriter_render example_records] by simp

text \<open>
  The claim as the specification words it fails: the output is not the bare message, it has
  a line feed before it and two after it.
\<close>

theorem formatTemplatesOutput_mips_counterexample:
  "formatTemplatesOutput tabwriter_render [] False ''mips'' \<noteq>
     ''Currently supported platforms are: armhf, arm64 and x86_64. Unable to find: mips''"
  by (simp add: formatTemplatesOutput_def checkExistingPlatforms_cases allPlatforms_def)

text \<open>
  Claim C1. For a platform that is one of \<open>armhf\<close>, \<open>x86_64\<close>, \<open>arm64\<close> (so not the
  sentinel), what the formatter hands to the tabwriter, and so what it returns, is the
  blank line, the header of the mode, and one row for each record whose platform field
  equals the requested value, and for no other record, in the order of the input, then the
  closing blank line; with the sentinel there is one row for every record, unfiltered. The
  header and the rows are written out here byte for byte.
\<close>

theorem formatTemplatesOutput_filters:
  "(platform \<in> {''armhf'', ''x86_64'', ''arm64''} \<longrightarrow>
      formatTemplatesOutput render records verbose platform =
        render \<lparr>minwidth = 0, tabwidth = 0, padding = 1, padchar = CHR '' '', flags = 0,
          text_written =
            [NL]
            @ (if verbose
               then ''NAME'' @ [TAB] @ ''LANGUAGE'' @ [TAB] @ ''PLATFORM'' @ [TAB] @ ''SOURCE''
                      @ [TAB] @ ''DESCRIPTION'' @ [NL]
               else ''NAME'' @ [TAB] @ ''SOURCE'' @ [TAB] @ ''DESCRIPTION'' @ [NL])
            @ concat (map (\<lambda>r. if verbose
                       then TemplateName r @ [TAB] @ Language r @ [TAB] @ Platform r @ [TAB]
                              @ Source r @ [TAB] @ Description r @ [NL]
                       else TemplateName r @ [TAB] @ Source r @ [TAB] @ Description r @ [NL])
                (filter (\<lambda>r. Platform r = platform) records))
            @ [NL]\<rparr>)
   \<and> formatTemplatesOutput render records verbose allPlatforms =
        render \<lparr>minwidth = 0, tabwidth = 0, padding = 1, padchar = CHR '' '', flags = 0,
          text_written =
            [NL]
            @ (if verbose
               then ''NAME'' @ [TAB] @ ''LANGUAGE'' @ [TAB] @ ''PLATFORM'' @ [TAB] @ ''SOURCE''
                      @ [TAB] @ ''DESCRIPTION'' @ [NL]
               else ''NAME'' @ [TAB] @ ''SOURCE'' @ [TAB] @ ''DESCRIPTION'' @ [NL])
            @ concat (map (\<lambda>r. if verbose
                       then TemplateName r @ [TAB] @ Language r @ [TAB] @ Platform r @ [TAB]
                              @ Source r @ [TAB] @ Description r @ [NL]
                       else TemplateName r @ [TAB] @ Source r @ [TAB] @ Description r @ [NL])
                records)
            @ [NL]\<rparr>"
proof -
  have rows: "(if verbose then verbose_row else basic_row) =
      (\<lambda>r. if verbose
            then TemplateName r @ [TAB] @ Language r @ [TAB] @ Platform r @ [TAB]
                   @ Source r @ [TAB] @ Description r @ [NL]
            else TemplateName r @ [TAB] @ Source r @ [TAB] @ Description r @ [NL])"
    by (auto simp: verbose_row_def basic_row_def)
  have valid: "p = allPlatforms \<or> checkExistingPlatforms p = None \<Longrightarrow>
      formatTemplatesOutput render records verbose p =
        render \<lparr>minwidth = 0, tabwidth = 0, padding = 1, padchar = CHR '' '', flags = 0,
          text_written =
            [NL]
            @ (if verbose
               then ''NAME'' @ [TAB] @ ''LANGUAGE'' @ [TAB] @ ''PLATFORM'' @ [TAB] @ ''SOURCE''
                      @ [TAB] @ ''DESCRIPTION'' @ [NL]
               else ''NAME'' @ [TAB] @ ''SOURCE'' @ [TAB] @ ''DESCRIPTION'' @ [NL])
            @ concat (map (\<lambda>r. if verbose
                       then TemplateName r @ [TAB] @ Language r @ [TAB] @ Platform r @ [TAB]
                              @ Source r @ [TAB] @ Description r @ [NL]
                       else TemplateName r @ [TAB] @ Source r @ [TAB] @ Description r @ [NL])
                (if p = allPlatforms then records else filter (\<lambda>t. Platform t = p) records))
            @ [NL]\<rparr>" for p
    unfolding rows [symmetric]
    by (simp add: formatTemplatesOutput_valid verbose_header_def basic_header_def)
  show ?thesis
  proof (intro conjI impI)
    assume member: "platform \<in> {''armhf'', ''x86_64'', ''arm64''}"
    then have "checkExistingPlatforms platform = None"
      by (simp add: checkExistingPlatforms_cases)
    moreover have "platform \<noteq> allPlatforms"
      using member allPlatforms_not_available by auto
    ultimately show "formatTemplatesOutput render records verbose platform =
        render \<lparr>minwidth = 0, tabwidth = 0, padding = 1, padchar = CHR '' '', flags = 0,
          text_written =
            [NL]
            @ (if verbose
               then ''NAME'' @ [TAB] @ ''LANGUAGE'' @ [TAB] @ ''PLATFORM'' @ [TAB] @ ''SOURCE''
                      @ [TAB] @ ''DESCRIPTION'' @ [NL]
               else ''NAME'' @ [TAB] @ ''SOURCE'' @ [TAB] @ ''DESCRIPTION'' @ [NL])
            @ concat (map (\<lambda>r. if verbose
                       then TemplateName r @ [TAB] @ Language r @ [TAB] @ Platform r @ [TAB]
                              @ Source r @ [TAB] @ Description r @ [NL]
                       else TemplateName r @ [TAB] @ Source r @ [TAB] @ Description r @ [NL])
                (filter (\<lambda>r. Platform r = platform) records))
            @ [NL]\<rparr>"
      using valid [of platform] by simp
  next
    show "formatTemplatesOutput render records verbose allPlatforms =
        render \<lparr>minwidth = 0, tabwidth = 0, padding = 1, padchar = CHR '' '', flags = 0,
          text_written =
            [NL]
            @ (if verbose
               then ''NAME'' @ [TAB] @ ''LANGUAGE'' @ [TAB] @ ''PLATFORM'' @ [TAB] @ ''SOURCE''
                      @ [TAB] @ ''DESCRIPTION'' @ [NL]
               else ''NAME'' @ [TAB] @ ''SOURCE'' @ [TAB] @ ''DESCRIPTION'' @ [NL])
            @ concat (map (\<lambda>r. if verbose
                       then TemplateName r @ [TAB] @ Language r @ [TAB] @ Platform r @ [TAB]
                              @ Source r @ [TAB] @ Description r @ [NL]
                       else TemplateName r @ [TAB] @ Source r @ [TAB] @ Description r @ [NL])
                records)
            @ [NL]\<rparr>"
      using valid [of allPlatforms] by simp
  qed
qed

text \<open>
  The library's rendering of the two tables, evaluated: the \<open>arm64\<close> record is absent
  from the first and present, in its place, in the second.
\<close>

lemma tabwriter_render_x86_64:
  "tabwriter_render \<lparr>minwidth = 0, tabwidth = 0, padding = 1, padchar = CHR '' '', flags = 0,
     text_written = [NL] @ ''NAME'' @ [TAB] @ ''SOURCE'' @ [TAB] @ ''DESCRIPTION'' @ [NL]
       @ ''go'' @ [TAB] @ ''openfaas'' @ [TAB] @ ''Go template'' @ [NL]
       @ ''rust'' @ [TAB] @ ''community'' @ [TAB] @ ''Rust template'' @ [NL]
       @ [NL]\<rparr>
   = [NL] @ ''NAME SOURCE    DESCRIPTION'' @ [NL]
      @ ''go   openfaas  Go template'' @ [NL]
      @ ''rust community Rust template'' @ [NL] @ [NL]"
  by code_simp

lemma tabwriter_render_all:
  "tabwriter_render \<lparr>minwidth = 0, tabwidth = 0, padding = 1, padchar = CHR '' '', flags = 0,
     text_written = [NL] @ ''NAME'' @ [TAB] @ ''SOURCE'' @ [TAB] @ ''DESCRIPTION'' @ [NL]
       @ ''go'' @ [TAB] @ ''openfaas'' @ [TAB] @ ''Go template'' @ [NL]
       @ ''node-arm64'' @ [TAB] @ ''openfaas'' @ [TAB] @ ''Node template'' @ [NL]
       @ ''rust'' @ [TAB] @ ''community'' @ [TAB] @ ''Rust template'' @ [NL]
       @ [NL]\<rparr>
   = [NL] @ ''NAME       SOURCE    DESCRIPTION'' @ [NL]
      @ ''go         openfaas  Go template'' @ [NL]
      @ ''node-arm64 openfaas  Node template'' @ [NL]
      @ ''rust       community Rust template'' @ [NL] @ [NL]"
  by code_simp

theorem formatTemplatesOutput_filters_witness:
  "''x86_64'' \<in> {''armhf'', ''x86_64'', ''arm64''}
   \<and> formatTemplatesOutput tabwriter_render example_records False ''x86_64'' =
        [NL] @ ''NAME SOURCE    DESCRIPTION'' @ [NL]
        @ ''go   openfaas  Go template'' @ [NL]
        @ ''rust community Rust template'' @ [NL] @ [NL]
   \<and> formatTemplatesOutput tabwriter_render example_records False allPlatforms =
        [NL] @ ''NAME       SOURCE    DESCRIPTION'' @ [NL]
        @ ''go         openfaas  Go template'' @ [NL]
        @ ''node-arm64 openfaas  Node template'' @ [NL]
        @ ''rust       community Rust template'' @ [NL] @ [NL]"
proof -
  have "formatTemplatesOutput tabwriter_render example_records False ''x86_64'' =
      tabwriter_render \<lparr>minwidth = 0, tabwidth = 0, padding = 1, padchar = CHR '' '', flags = 0,
     text_written = [NL] @ ''NAME'' @ [TAB] @ ''SOURCE'' @ [TAB] @ ''DESCRIPTION'' @ [NL]
       @ ''go'' @ [TAB] @ ''openfaas'' @ [TAB] @ ''Go template'' @ [NL]
       @ ''rust'' @ [TAB] @ ''community'' @ [TAB] @ ''Rust template'' @ [NL]
       @ [NL]\<rparr>"
    and "formatTemplatesOutput tabwriter_render example_records False allPlatforms =
      tabwriter_render \<lparr>minwidth = 0, tabwidth = 0, padding = 1, padchar = CHR '' '', flags = 0,
     text_written = [NL] @ ''NAME'' @ [TAB] @ ''SOURCE'' @ [TAB] @ ''DESCRIPTION'' @ [NL]
       @ ''go'' @ [TAB] @ ''openfaas'' @ [TAB] @ ''Go template'' @ [NL]
       @ ''node-arm64'' @ [TAB] @ ''openfaas'' @ [TAB] @ ''Node template'' @ [NL]
       @ ''rust'' @ [TAB] @ ''community'' @ [TAB] @ ''Rust template'' @ [NL]
       @ [NL]\<rparr>"
    using formatTemplatesOutput_filters [of "''x86_64''" tabwriter_render example_records False]
    by (simp_all add: example_records_def)
  then show ?thesis
    by (simp only: tabwriter_render_x86_64 tabwriter_render_all simp_thms insert_iff)
qed

section \<open>The rendered table\<close>

subsection \<open>Writing a table to the tabwriter\<close>

text \<open>
  The buffer between two cells: \<open>ls\<close> are the finished lines, \<open>cur\<close> the cells of the line
  in progress, \<open>out\<close> what has been flushed.
\<close>

definition clean :: "cell list list \<Rightarrow> cell list \<Rightarrow> string \<Rightarrow> tw_buffer" where
  "clean ls cur out = \<lparr>lines_done = ls, cur_line = cur, cell_text = [], cell_width = 0,
     pending = [], in_escape = False, flushed = out\<rparr>"

text \<open>A cell as the buffer keeps it: its bytes and its width in runes.\<close>

definition cellof :: "string \<Rightarrow> cell" where
  "cellof s = (s, RuneCount s)"

text \<open>A line of cells as it is written: a tab after every cell but the last, then a line feed.\<close>

definition line_text :: "string list \<Rightarrow> string" where
  "line_text cells = concat (map (\<lambda>c. c @ [TAB]) (butlast cells)) @ last cells @ [NL]"

lemma fold_write_plain:
  "plain s \<Longrightarrow> \<not> in_escape b \<Longrightarrow>
     fold (\<lambda>ch b. write_byte w b ch) s b = b\<lparr>cell_text := cell_text b @ s, pending := pending b @ s\<rparr>"
proof (induction s arbitrary: b)
  case Nil
  then show ?case by simp
next
  case (Cons c s)
  have c: "write_byte w b c = append_byte b c"
    using Cons.prems by (simp add: write_byte_def plain_def Escape_def)
  have "plain s" using Cons.prems(1) by (simp add: plain_def)
  moreover have "\<not> in_escape (append_byte b c)" using Cons.prems(2) by (simp add: append_byte_def)
  ultimately show ?case using Cons.IH [of "append_byte b c"] c
    by (simp add: append_byte_def)
qed

lemma fold_write_cell_tab:
  assumes "plain s"
  shows "fold (\<lambda>ch b. write_byte w b ch) (s @ [TAB]) (clean ls cur out) = clean ls (cur @ [cellof s]) out"
  using fold_write_plain [OF assms, of "clean ls cur out" w]
  by (simp add: clean_def write_byte_def terminateCell_def updateWidth_def cellof_def)

lemma fold_write_cell_nl:
  assumes "plain s" and "cur \<noteq> []"
  shows "fold (\<lambda>ch b. write_byte w b ch) (s @ [NL]) (clean ls cur out) = clean (ls @ [cur @ [cellof s]]) [] out"
  using fold_write_plain [OF assms(1), of "clean ls cur out" w] assms(2)
  by (simp add: clean_def write_byte_def terminateCell_def updateWidth_def cellof_def addLine_def Let_def)

lemma fold_write_cells_tab:
  "\<forall>c \<in> set cs. plain c \<Longrightarrow>
     fold (\<lambda>ch b. write_byte w b ch) (concat (map (\<lambda>c. c @ [TAB]) cs)) (clean ls cur out)
       = clean ls (cur @ map cellof cs) out"
proof (induction cs arbitrary: cur)
  case Nil
  then show ?case by simp
next
  case (Cons c cs)
  then show ?case using fold_write_cell_tab [of c w ls cur out] by simp
qed

lemma fold_write_line:
  assumes "\<forall>c \<in> set cells. plain c" and "2 \<le> length cells"
  shows "fold (\<lambda>ch b. write_byte w b ch) (line_text cells) (clean ls [] out)
       = clean (ls @ [map cellof cells]) [] out"
proof -
  have ne: "cells \<noteq> []" "butlast cells \<noteq> []" using assms(2) by (auto simp: butlast_conv_take)
  have bl: "\<forall>c \<in> set (butlast cells). plain c" using assms(1) by (auto dest: in_set_butlastD)
  have la: "plain (last cells)" using assms(1) ne by simp
  have "map cellof cells = map cellof (butlast cells) @ [cellof (last cells)]"
    using ne(1) by (metis append_butlast_last_id list.simps(8) list.simps(9) map_append)
  then show ?thesis
    using fold_write_cells_tab [OF bl, of w ls "[]" out]
      fold_write_cell_nl [OF la, of "map cellof (butlast cells)" w ls out] ne
    by (simp add: line_text_def)
qed

lemma fold_write_lines:
  "\<forall>cells \<in> set rows. (\<forall>c \<in> set cells. plain c) \<and> 2 \<le> length cells \<Longrightarrow>
     fold (\<lambda>ch b. write_byte w b ch) (concat (map line_text rows)) (clean ls [] out)
       = clean (ls @ map (map cellof) rows) [] out"
proof (induction rows arbitrary: ls)
  case Nil
  then show ?case by simp
next
  case (Cons r rows)
  then show ?case using fold_write_line [of r w ls out] by simp
qed

lemma RuneCount_Nil: "RuneCount [] = 0"
  by (simp add: RuneCount.simps)

lemma fold_write_nl:
  "fold (\<lambda>ch b. write_byte w b ch) [NL] (clean ls [] out)
     = clean [] [] (out @ join_lines (format w [] (ls @ [[([], 0)], []])))"
  by (simp add: clean_def write_byte_def terminateCell_def updateWidth_def addLine_def
      flushNoDefers_def reset_def RuneCount_Nil Let_def)

subsection \<open>Formatting a table\<close>

lemma format_no_cell:
  "\<forall>l \<in> set T. \<not> has_cell (length widths) l \<Longrightarrow>
     format w widths T = map (write_cells w widths 0) T"
  by (induction T) (simp_all add: format.simps)

lemma takeWhile_all: "\<forall>x \<in> set xs. P x \<Longrightarrow> takeWhile P xs = xs"
  by (induction xs) simp_all

lemma dropWhile_all: "\<forall>x \<in> set xs. P x \<Longrightarrow> dropWhile P xs = []"
  by (induction xs) simp_all

lemma format_all_cell:
  assumes "\<forall>l \<in> set T. has_cell (length widths) l"
  shows "format w widths T = format w (widths @ [block_width w (length widths) T]) T"
proof (cases T)
  case Nil
  then show ?thesis by (simp add: format.simps(1))
next
  case (Cons line rest)
  have tw: "takeWhile (has_cell (length widths)) (line # rest) = line # rest"
    using assms Cons by (intro takeWhile_all) simp
  have dw: "dropWhile (has_cell (length widths)) (line # rest) = []"
    using assms Cons by (intro dropWhile_all) simp
  have hc: "has_cell (length widths) line" using assms Cons by simp
  show ?thesis
    unfolding Cons
    by (subst format.simps(2)) (simp only: hc tw dw format.simps(1) append_Nil2 not_True_eq_False if_False)
qed

lemma format_rect:
  "\<forall>l \<in> set T. length l = k \<Longrightarrow> length widths \<le> k - 1 \<Longrightarrow> n = k - 1 - length widths \<Longrightarrow>
     format w widths T =
       map (write_cells w (widths @ map (\<lambda>j. block_width w j T) [length widths..<k - 1]) 0) T"
proof (induction n arbitrary: widths)
  case 0
  then have "length widths = k - 1" by simp
  then have "\<forall>l \<in> set T. \<not> has_cell (length widths) l"
    using 0(1) by (auto simp: has_cell_def)
  then show ?case using \<open>length widths = k - 1\<close> by (simp add: format_no_cell)
next
  case (Suc n)
  then have lt: "length widths < k - 1" by simp
  then have "\<forall>l \<in> set T. has_cell (length widths) l"
    using Suc.prems(1) by (auto simp: has_cell_def)
  then have "format w widths T = format w (widths @ [block_width w (length widths) T]) T"
    by (rule format_all_cell)
  also have "\<dots> = map (write_cells w ((widths @ [block_width w (length widths) T])
      @ map (\<lambda>j. block_width w j T) [length (widths @ [block_width w (length widths) T])..<k - 1]) 0) T"
    using Suc.prems lt by (intro Suc.IH) auto
  also have "\<dots> = map (write_cells w (widths @ map (\<lambda>j. block_width w j T) [length widths..<k - 1]) 0) T"
    using lt by (simp add: upt_conv_Cons)
  finally show ?case .
qed

lemma format_table:
  assumes "\<forall>l \<in> set T. length l = k" and "2 \<le> k" and "T \<noteq> []"
  shows "format w [] (T @ [[([], 0)], []]) =
     map (write_cells w (map (\<lambda>j. block_width w j T) [0..<k - 1]) 0) T @ [[], []]"
proof -
  obtain line rest where T: "T = line # rest" using assms(3) by (cases T) auto
  have all: "\<forall>l \<in> set T. has_cell 0 l" using assms(1,2) by (auto simp: has_cell_def)
  have tw: "takeWhile (has_cell 0) (T @ [[([], 0)], []]) = T"
    using all by (simp add: takeWhile_append2 has_cell_def)
  have dw: "dropWhile (has_cell 0) (T @ [[([], 0)], []]) = [[([], 0)], []]"
    using all by (simp add: dropWhile_append2 has_cell_def)
  have hc: "has_cell 0 line" using all T by simp
  have tail: "format w [] [[([], 0)], []] = [[], []]"
    by (simp add: format_no_cell has_cell_def)
  have "format w [] (T @ [[([], 0)], []]) =
      format w [block_width w 0 T] T @ format w [] [[([], 0)], []]"
    using tw dw hc unfolding T
    by (simp only: append_Cons format.simps(2) list.size not_True_eq_False if_False append_Nil)
  also have "format w [block_width w 0 T] T =
      map (write_cells w ([block_width w 0 T] @ map (\<lambda>j. block_width w j T) [length [block_width w 0 T]..<k - 1]) 0) T"
    using assms(1,2) by (intro format_rect [where n = "k - 1 - 1"]) auto
  also have "[block_width w 0 T] @ map (\<lambda>j. block_width w j T) [length [block_width w 0 T]..<k - 1]
      = map (\<lambda>j. block_width w j T) [0..<k - 1]"
    using assms(2) by (simp add: upt_conv_Cons)
  finally show ?thesis by (simp add: tail)
qed

lemma fold_max:
  "fold (\<lambda>x a. if g x > a then g x else a) xs (m::int) = Max (set (m # map g xs))"
proof (induction xs arbitrary: m)
  case Nil
  then show ?case by simp
next
  case (Cons x xs)
  have "Max (insert (if m < g x then g x else m) (g ` set xs)) = Max (insert m (insert (g x) (g ` set xs)))"
    by (cases "set xs = {}") (auto simp: max_def)
  then show ?case using Cons.IH [of "if g x > m then g x else m"] by simp
qed

lemma RuneCount_nonneg: "0 \<le> RuneCount p"
  by (induction p rule: RuneCount.induct) (subst RuneCount.simps, simp)

lemma block_width_table:
  assumes "T \<noteq> []" and "\<forall>row \<in> set T. j < length row" and "padding w = 1" and "minwidth w = 0"
  shows "block_width w j (map (map cellof) T) = column_width T j"
proof -
  let ?g = "\<lambda>row. RuneCount (row ! j) + 1"
  have "block_width w j (map (map cellof) T)
      = fold (\<lambda>row a. if ?g row > a then ?g row else a) T 0"
    unfolding block_width_def fold_map assms(3,4)
    using assms(2) by (intro fold_cong) (auto simp: cellof_def)
  also have "\<dots> = Max (set (0 # map ?g T))" by (rule fold_max)
  also have "\<dots> = Max (?g ` set T)"
  proof -
    obtain r where "r \<in> set T" using assms(1) by (cases T) auto
    then have "1 \<le> Max (?g ` set T)"
      using RuneCount_nonneg [of "r ! j"] by (subst Max_ge_iff) auto
    then show ?thesis using assms(1) by simp
  qed
  also have "\<dots> = Max ((\<lambda>x. x + 1) ` (\<lambda>row. RuneCount (row ! j)) ` set T)"
    by (simp add: image_image)
  also have "\<dots> = Max ((\<lambda>row. RuneCount (row ! j)) ` set T) + 1"
    using assms(1) by (intro mono_Max_commute [symmetric]) (auto simp: mono_def)
  finally show ?thesis by (simp add: column_width_def)
qed

lemma write_cells_aligned:
  "length cells + j = k \<Longrightarrow> cells \<noteq> [] \<Longrightarrow> padchar w = CHR '' '' \<Longrightarrow>
     write_cells w (map (column_width T) [0..<k - 1]) j (map cellof cells) = aligned_line T j cells"
proof (induction T j cells rule: aligned_line.induct)
  case (1 table j)
  then show ?case by simp
next
  case (2 table j c)
  then have "k - 1 = j" by auto
  then show ?case by (simp add: cellof_def)
next
  case (3 table j c v va)
  then have "j < k - 1" by auto
  then show ?case using 3 by (simp add: cellof_def writePadding_def)
qed

lemma join_lines_table:
  "join_lines (xs @ [[], []]) = concat (map (\<lambda>l. l @ [NL]) xs) @ [NL]"
proof (induction xs)
  case Nil
  then show ?case by simp
next
  case (Cons x xs)
  then show ?case by (cases xs) simp_all
qed

lemma tabwriter_render_table:
  assumes "T \<noteq> []" and "\<forall>row \<in> set T. length row = k \<and> (\<forall>c \<in> set row. plain c)" and "2 \<le> k"
    and "padding w = 1" and "minwidth w = 0" and "padchar w = CHR '' ''"
    and "text_written w = [NL] @ concat (map line_text T) @ [NL]"
  shows "tabwriter_render w = [NL] @ concat (map (\<lambda>row. aligned_line T 0 row @ [NL]) T) @ [NL]"
proof -
  let ?wb = "\<lambda>ch b. write_byte w b ch"
  let ?C = "map (map cellof) T"
  have first: "fold ?wb [NL] (reset []) = clean [] [] [NL]"
    using fold_write_nl [of w "[]" "[]"]
    by (simp add: reset_def clean_def format_no_cell has_cell_def)
  have rows: "fold ?wb (concat (map line_text T)) (clean [] [] [NL]) = clean ?C [] [NL]"
    using fold_write_lines [of T w "[]" "[NL]"] assms(2,3) by simp
  have last: "fold ?wb [NL] (clean ?C [] [NL]) = clean [] [] ([NL] @ join_lines (format w [] (?C @ [[([], 0)], []])))"
    by (rule fold_write_nl)
  have fm: "format w [] (?C @ [[([], 0)], []]) =
      map (write_cells w (map (\<lambda>j. block_width w j ?C) [0..<k - 1]) 0) ?C @ [[], []]"
    using assms(1,2,3) by (intro format_table) auto
  have bw: "map (\<lambda>j. block_width w j ?C) [0..<k - 1] = map (column_width T) [0..<k - 1]"
    using assms(1,2,4,5) by (intro map_cong refl block_width_table) auto
  have wc: "map (write_cells w (map (column_width T) [0..<k - 1]) 0) ?C = map (aligned_line T 0) T"
    unfolding map_map using assms(2,3,6)
  proof (intro map_cong refl)
    fix row assume "row \<in> set T"
    then have "length row + 0 = k" "row \<noteq> []" using assms(2,3) by auto
    then show "(write_cells w (map (column_width T) [0..<k - 1]) 0 \<circ> map cellof) row = aligned_line T 0 row"
      using write_cells_aligned [of row 0 k w T] assms(6) by simp
  qed
  have fl: "flushNoDefers w (clean [] [] out) = reset out" for out
    by (simp add: flushNoDefers_def clean_def format_no_cell has_cell_def)
  have "fold ?wb (text_written w) (reset []) =
      clean [] [] ([NL] @ join_lines (format w [] (?C @ [[([], 0)], []])))"
    unfolding assms(7) fold_append comp_def first rows last ..
  moreover have "format w [] (?C @ [[([], 0)], []]) = map (aligned_line T 0) T @ [[], []]"
    unfolding fm bw wc ..
  ultimately show ?thesis
    unfolding tabwriter_render_def
    by (simp add: fl reset_def join_lines_table comp_def)
qed

lemma column_width_padding:
  assumes "row \<in> set table"
  shows "1 \<le> column_width table j - RuneCount (row ! j)"
proof -
  have "RuneCount (row ! j) \<le> Max (set (map (\<lambda>row. RuneCount (row ! j)) table))"
    using assms by (intro Max_ge) auto
  then show ?thesis by (simp add: column_width_def)
qed

lemma line_text_3: "line_text [a, b, c] = a @ [TAB] @ b @ [TAB] @ c @ [NL]"
  by (simp add: line_text_def)

lemma line_text_5:
  "line_text [a, b, c, d, e] = a @ [TAB] @ b @ [TAB] @ c @ [TAB] @ d @ [TAB] @ e @ [NL]"
  by (simp add: line_text_def)

lemma table_cells_text:
  "concat (map line_text (table_cells verbose records)) =
     (if verbose then verbose_header else basic_header)
       @ concat (map (if verbose then verbose_row else basic_row) records)"
  by (simp add: table_cells_def line_text_3 line_text_5 verbose_header_def basic_header_def
      verbose_row_def [abs_def] basic_row_def [abs_def] comp_def)

subsection \<open>The layout of the output\<close>

text \<open>
  Claim C8, as amended. When the platform passes validation (it is the sentinel, or
  \<open>checkExistingPlatforms\<close> accepts it) and no displayed field of a surviving record
  holds a tab, a vertical tab, a line feed, a form feed or the byte 0xFF, the output of the
  formatter, rendered by the tabwriter, is: one line feed (the single leading blank line);
  the header line, \<open>NAME SOURCE DESCRIPTION\<close> in basic mode and
  \<open>NAME LANGUAGE PLATFORM SOURCE DESCRIPTION\<close> in verbose mode; one line for each
  surviving record, in order, with its name, source and description, in verbose mode with
  language and platform after the name; one line feed (the single trailing blank line). In
  every line each cell but the last is followed by spaces up to the width of its column,
  which is one more than the number of runes of the column's widest cell, so that the
  columns are aligned and at least one space apart.
\<close>

theorem formatTemplatesOutput_layout:
  assumes "platform = allPlatforms \<or> checkExistingPlatforms platform = None"
    and "\<forall>row \<in> set (table_cells verbose (spec_surviving platform records)). \<forall>c \<in> set row. plain c"
  shows "formatTemplatesOutput tabwriter_render records verbose platform =
     (let table = table_cells verbose (spec_surviving platform records)
      in [NL] @ concat (map (\<lambda>row. aligned_line table 0 row @ [NL]) table) @ [NL])"
proof -
  let ?T = "table_cells verbose (spec_surviving platform records)"
  let ?w = "\<lparr>minwidth = 0, tabwidth = 0, padding = 1, padchar = CHR '' '', flags = 0,
       text_written = [NL] @ concat (map line_text ?T) @ [NL]\<rparr>"
  have len: "\<forall>row \<in> set ?T. length row = (if verbose then 5 else 3)"
    by (auto simp: table_cells_def)
  have "formatTemplatesOutput tabwriter_render records verbose platform = tabwriter_render ?w"
    unfolding formatTemplatesOutput_valid [OF assms(1)] table_cells_text spec_surviving_def
    by simp
  also have "\<dots> = [NL] @ concat (map (\<lambda>row. aligned_line ?T 0 row @ [NL]) ?T) @ [NL]"
  proof (rule tabwriter_render_table [where k = "if verbose then 5 else 3"])
    show "?T \<noteq> []" by (simp add: table_cells_def)
    show "\<forall>row \<in> set ?T. length row = (if verbose then 5 else 3) \<and> (\<forall>c \<in> set row. plain c)"
      using len assms(2) by blast
  qed simp_all
  finally show ?thesis by (simp add: Let_def)
qed


text \<open>
  Two tables evaluated: the verbose table of the \<open>x86_64\<close> records, and a basic table
  with a two-byte rune in a name and an empty description.
\<close>

lemma aligned_example_verbose:
  "(let table = table_cells True (spec_surviving ''x86_64'' example_records)
    in [NL] @ concat (map (\<lambda>row. aligned_line table 0 row @ [NL]) table) @ [NL])
   = [NL] @ ''NAME LANGUAGE PLATFORM SOURCE    DESCRIPTION'' @ [NL]
      @ ''go   Go       x86_64   openfaas  Go template'' @ [NL]
      @ ''rust Rust     x86_64   community Rust template'' @ [NL] @ [NL]"
  by code_simp

lemma aligned_example_basic:
  "(let table = table_cells False (spec_surviving allPlatforms accented_records)
    in [NL] @ concat (map (\<lambda>row. aligned_line table 0 row @ [NL]) table) @ [NL])
   = [NL] @ ''NAME          SOURCE             DESCRIPTION'' @ [NL]
      @ ''python3-flask openfaas/templates Flask template'' @ [NL]
      @ ''caf'' @ [CHR 0xC3, CHR 0xA9] @ ''          community          '' @ [NL] @ [NL]"
  by code_simp

lemma plain_example_verbose:
  "\<forall>row \<in> set (table_cells True (spec_surviving ''x86_64'' example_records)). \<forall>c \<in> set row. plain c"
  by code_simp

lemma plain_example_basic:
  "\<forall>row \<in> set (table_cells False (spec_surviving allPlatforms accented_records)). \<forall>c \<in> set row. plain c"
  by code_simp

theorem formatTemplatesOutput_layout_witness:
  "(''x86_64'' = allPlatforms \<or> checkExistingPlatforms ''x86_64'' = None)
   \<and> list_all (list_all plain) (table_cells True (spec_surviving ''x86_64'' example_records))
   \<and> formatTemplatesOutput tabwriter_render example_records True ''x86_64''
      = [NL] @ ''NAME LANGUAGE PLATFORM SOURCE    DESCRIPTION'' @ [NL]
         @ ''go   Go       x86_64   openfaas  Go template'' @ [NL]
         @ ''rust Rust     x86_64   community Rust template'' @ [NL] @ [NL]
   \<and> list_all (list_all plain) (table_cells False (spec_surviving allPlatforms accented_records))
   \<and> formatTemplatesOutput tabwriter_render accented_records False allPlatforms
      = [NL] @ ''NAME          SOURCE             DESCRIPTION'' @ [NL]
         @ ''python3-flask openfaas/templates Flask template'' @ [NL]
         @ ''caf'' @ [CHR 0xC3, CHR 0xA9] @ ''          community          '' @ [NL] @ [NL]"
proof -
  have valid: "''x86_64'' = allPlatforms \<or> checkExistingPlatforms ''x86_64'' = None"
    by (simp add: checkExistingPlatforms_cases)
  have verbose: "formatTemplatesOutput tabwriter_render example_records True ''x86_64''
      = [NL] @ ''NAME LANGUAGE PLATFORM SOURCE    DESCRIPTION'' @ [NL]
         @ ''go   Go       x86_64   openfaas  Go template'' @ [NL]
         @ ''rust Rust     x86_64   community Rust template'' @ [NL] @ [NL]"
    using formatTemplatesOutput_layout [OF valid plain_example_verbose]
    by (simp only: aligned_example_verbose)
  have basic: "formatTemplatesOutput tabwriter_render accented_records False allPlatforms
      = [NL] @ ''NAME          SOURCE             DESCRIPTION'' @ [NL]
         @ ''python3-flask openfaas/templates Flask template'' @ [NL]
         @ ''caf'' @ [CHR 0xC3, CHR 0xA9] @ ''          community          '' @ [NL] @ [NL]"
    using formatTemplatesOutput_layout [OF disjI1 [OF refl] plain_example_basic]
    by (simp only: aligned_example_basic)
  have "list_all (list_all plain) (table_cells True (spec_surviving ''x86_64'' example_records))"
    and "list_all (list_all plain) (table_cells False (spec_surviving allPlatforms accented_records))"
    using plain_example_verbose plain_example_basic by (simp_all add: list_all_iff)
  then show ?thesis
    using valid verbose basic by blast
qed

text \<open>
  Without the condition on the fields the claim fails: a description that ends with a line
  feed leaves two blank lines at the end of the output.
\<close>

theorem formatTemplatesOutput_layout_counterexample:
  "formatTemplatesOutput tabwriter_render
     [\<lparr>TemplateName = ''n'', Platform = [], Language = [], Source = ''s'',
       Description = ''d'' @ [NL], Repository = [], Official = []\<rparr>] False allPlatforms
   = [NL] @ ''NAME SOURCE DESCRIPTION'' @ [NL] @ ''n    s      d'' @ [NL, NL, NL]"
  by code_simp

end
